theory Spec2Isabelle
  imports Complex_Main
begin

section \<open>Shared conventions\<close>

text \<open>
  A Mongo ObjectId is a natural number, a JavaScript \<open>Date\<close> is its millisecond
  timestamp (an integer), and a JavaScript \<open>Number\<close> holding money is the rational
  number it denotes. Comparisons of such numbers are exact. The percentage computation of
  a discount multiplies and divides, and there the result of each operation is rounded to
  the nearest binary64 number (\<open>round64\<close> below), as the source computes it; the sums of
  order totals are taken exactly. Counters that the source only ever increments by one
  from zero are natural numbers.
\<close>

type_synonym oid = nat
type_synonym time = int
type_synonym money = rat

text \<open>The errors the order methods throw, with the message of the source:
  \<open>InvalidTransition\<close> for 'Cannot cancel delivered order' and 'Can only return
  delivered orders', \<open>ReturnWindowExpired\<close> for 'Return period has expired', and
  \<open>OrderTypeError\<close> for the TypeError of \<open>this.deliveredAt.getTime()\<close> on a missing
  delivery date.\<close>

datatype order_error =
  InvalidTransition string | ReturnWindowExpired string | OrderTypeError

text \<open>What can make an awaited call throw inside a handler: a pre-save hook of the
  coupon schema, the store refusing a write, a property read on \<open>null\<close>, or an order
  method.\<close>

datatype failure =
  HookError string | StoreError | TypeError | ValidationError | Thrown order_error

subsection \<open>binary64 rounding\<close>

text \<open>The number of binary digits of a positive integer, and the powers of two with an
  integer exponent.\<close>

function bit_length :: "int \<Rightarrow> int" where
  "bit_length n = (if n \<le> 0 then 0 else 1 + bit_length (n div 2))"
  by pat_completeness auto
termination
  by (relation "measure nat") auto

declare bit_length.simps [simp del]

definition pow2 :: "int \<Rightarrow> rat" where
  "pow2 k = (if 0 \<le> k then 2 ^ nat k else 1 / 2 ^ nat (- k))"

text \<open>For \<open>x \<noteq> 0\<close>, the integer \<open>e\<close> with \<open>2 ^ e \<le> |x| < 2 ^ (e + 1)\<close>: with \<open>|x| = p / q\<close>
  it is the difference of the bit lengths of \<open>p\<close> and \<open>q\<close>, or one less.\<close>

definition binary_exponent :: "rat \<Rightarrow> int" where
  "binary_exponent x =
     (let (p, q) = quotient_of \<bar>x\<bar>;
          k = bit_length p - bit_length q
      in if pow2 k \<le> \<bar>x\<bar> then k else k - 1)"

text \<open>Rounding to the nearest integer, a tie going to the even one.\<close>

definition round_half_even :: "rat \<Rightarrow> int" where
  "round_half_even x =
     (let f = \<lfloor>x\<rfloor>; r = x - of_int f
      in if r < 1 / 2 then f
         else if r > 1 / 2 then f + 1
         else if even f then f else f + 1)"

text \<open>The binary64 number nearest to \<open>x\<close>, ties to even: \<open>x\<close> is scaled to a significand of
  53 binary digits, which is rounded to an integer. Overflow to infinity and the
  subnormal range, both far from any amount of money, are not modelled.\<close>

definition round64 :: "rat \<Rightarrow> rat" where
  "round64 x =
     (if x = 0 then 0
      else let e = binary_exponent x - 52
           in of_int (round_half_even (x / pow2 e)) * pow2 e)"

section \<open>models/coupon.js\<close>

datatype discount_type = Percentage | Fixed

record usage_entry =
  h_orderId :: oid
  h_discountAmount :: money
  h_usedAt :: time

record user_usage =
  uu_user :: oid
  usedCount :: nat
  lastUsedAt :: "time option"
  usageHistory :: "usage_entry list"

record coupon =
  c_id :: oid
  c_code :: string
  discountType :: discount_type
  discountValue :: money
  maxDiscountAmount :: "money option"
  minOrderValue :: money
  maxUsageLimit :: "nat option"
  maxUsagePerUser :: nat
  validFrom :: time
  validUntil :: time
  isActive :: bool
  applicableCategories :: "oid list"
  applicableProducts :: "oid list"
  applicableUsers :: "oid list"
  usageCount :: nat
  userUsage :: "user_usage list"
  freeShipping :: bool
  excludedProducts :: "oid list"

text \<open>
  The \<open>reason\<close> strings of the source, as constructors:
  \<^item> \<open>NotActive\<close>: 'Coupon is not active'
  \<^item> \<open>Expired\<close>: 'Coupon has expired'
  \<^item> \<open>NotYetValid\<close>: 'Coupon not yet valid'
  \<^item> \<open>GlobalLimitReached\<close>: 'Coupon usage limit reached'
  \<^item> \<open>UserNotEligible\<close>: 'This coupon is not applicable for you'
  \<^item> \<open>UserLimitReached n\<close>: 'You have already used this coupon n time(s)'
  \<^item> \<open>BelowMinimumOrderValue m\<close>: 'Minimum order value of m required'
  \<^item> \<open>NoApplicableItems\<close>: 'No applicable products in cart'
  \<^item> \<open>ExcludedItemPresent\<close>: 'Some items in cart cannot use this coupon'
\<close>

datatype reason =
    NotActive | Expired | NotYetValid | GlobalLimitReached
  | UserNotEligible | UserLimitReached nat
  | BelowMinimumOrderValue money | NoApplicableItems | ExcludedItemPresent

text \<open>The object \<open>{ valid, reason }\<close> returned by \<open>isValid\<close> and \<open>canUserUse\<close>.\<close>

datatype validation = Valid | Invalid reason



definition isValid :: "coupon \<Rightarrow> time \<Rightarrow> validation" where
  "isValid c now =
     (if \<not> isActive c then Invalid NotActive
      else if now > validUntil c then Invalid Expired
      else if now < validFrom c then Invalid NotYetValid
      else if (case maxUsageLimit c of
                 Some n \<Rightarrow> n \<noteq> 0 \<and> usageCount c \<ge> n
               | None \<Rightarrow> False)
        then Invalid GlobalLimitReached
      else Valid)"

definition canUserUse :: "coupon \<Rightarrow> oid \<Rightarrow> time \<Rightarrow> validation" where
  "canUserUse c userId now =
     (case isValid c now of
        Invalid r \<Rightarrow> Invalid r
      | Valid \<Rightarrow>
          if applicableUsers c \<noteq> [] \<and> \<not> list_ex (\<lambda>i. i = userId) (applicableUsers c)
            then Invalid UserNotEligible
          else (case find (\<lambda>u. uu_user u = userId) (userUsage c) of
                  Some u \<Rightarrow> if usedCount u \<ge> maxUsagePerUser c
                             then Invalid (UserLimitReached (maxUsagePerUser c))
                             else Valid
                | None \<Rightarrow> Valid))"

record cart_item =
  ci_product :: oid
  ci_quantity :: nat

record discount_ok =
  r_discountAmount :: money
  r_discountType :: discount_type
  r_freeShipping :: bool
  r_originalTotal :: money
  r_finalTotal :: money

datatype discount_result = DiscountOk discount_ok | DiscountRejected reason

definition discount_amount :: "coupon \<Rightarrow> money \<Rightarrow> money" where
  "discount_amount c cartTotal =
     (case discountType c of
        Percentage \<Rightarrow>
          (let d = round64 (round64 (cartTotal * discountValue c) / 100)
           in case maxDiscountAmount c of
                Some m \<Rightarrow> if d > m then m else d
              | None \<Rightarrow> d)
      | Fixed \<Rightarrow>
          (let d = discountValue c
           in if d > cartTotal then cartTotal else d))"

definition calculateDiscount :: "coupon \<Rightarrow> money \<Rightarrow> cart_item list \<Rightarrow> discount_result" where
  "calculateDiscount c cartTotal cartItems =
     (if cartTotal < minOrderValue c
        then DiscountRejected (BelowMinimumOrderValue (minOrderValue c))
      else
        let cartProductIds = map ci_product cartItems in
        if applicableProducts c \<noteq> []
           \<and> \<not> list_ex (\<lambda>i. list_ex (\<lambda>p. p = i) (applicableProducts c)) cartProductIds
          then DiscountRejected NoApplicableItems
        else if excludedProducts c \<noteq> []
           \<and> list_ex (\<lambda>i. list_ex (\<lambda>p. p = i) (excludedProducts c)) cartProductIds
          then DiscountRejected ExcludedItemPresent
        else
          let discountAmount = discount_amount c cartTotal in
          DiscountOk \<lparr> r_discountAmount = discountAmount,
                       r_discountType = discountType c,
                       r_freeShipping = freeShipping c,
                       r_originalTotal = cartTotal,
                       r_finalTotal = round64 (cartTotal - discountAmount) \<rparr>)"

text \<open>\<open>couponSchema.methods.applyCoupon\<close>, the usage-ledger commit. The source looks the
  user's entry up with \<open>find\<close>. An entry that is found is a subdocument of the coupon, and
  the three updates that follow are stored with it. When there is none, the source pushes
  a plain object: the document array stores a cast copy of it (with \<open>usedCount: 0\<close>, no
  \<open>lastUsedAt\<close> and an empty \<open>usageHistory\<close>), and the three updates go to the plain object
  the method still holds, not to the stored entry.\<close>

fun update_first :: "('a \<Rightarrow> bool) \<Rightarrow> ('a \<Rightarrow> 'a) \<Rightarrow> 'a list \<Rightarrow> 'a list" where
  "update_first P f [] = []"
| "update_first P f (x # xs) = (if P x then f x # xs else x # update_first P f xs)"










section \<open>models/product.js: stock\<close>

record variant =
  v_sku :: string
  v_stock :: int
  v_price :: money
  v_isAvailable :: bool

record product =
  p_price :: money
  p_stock :: int
  hasVariants :: bool
  variants :: "variant list"
  p_isActive :: bool
  p_approved :: bool
  p_freeShipping :: bool
  p_shippingCharge :: money
  isOutOfStock :: bool

text \<open>A JavaScript string is truthy when it is defined and not empty.\<close>

fun truthy_string :: "string option \<Rightarrow> bool" where
  "truthy_string None = False"
| "truthy_string (Some s) = (s \<noteq> [])"

text \<open>The pre-save hook ``Check if out of stock''. The two other hooks of the schema
  that matter on a save (unique, non-empty variant SKUs) read only fields that the
  stock methods leave alone, so a stored product passes them again.\<close>

definition product_save :: "product \<Rightarrow> product" where
  "product_save p =
     (if hasVariants p
        then (let totalStock = foldl (\<lambda>s v. s + v_stock v) 0 (variants p)
              in p \<lparr> p_stock := totalStock, isOutOfStock := (totalStock = 0) \<rparr>)
      else p \<lparr> isOutOfStock := (p_stock p = 0) \<rparr>)"

text \<open>The validators \<open>min: 0\<close> of \<open>stock\<close> and of the \<open>stock\<close> of each variant, which \<open>save()\<close>
  runs before the pre-save hooks. A stored product satisfies them, so after a stock
  method only the field just written can fail, and only by a decrease.\<close>

definition stock_valid :: "product \<Rightarrow> bool" where
  "stock_valid p \<longleftrightarrow> 0 \<le> p_stock p \<and> list_all (\<lambda>v. 0 \<le> v_stock v) (variants p)"

text \<open>\<open>decreaseStock\<close>: \<open>Inl ValidationError\<close> is the error \<open>save()\<close> throws on a negative
  stock, the stored product then staying as it was.\<close>

definition decreaseStock :: "product \<Rightarrow> nat \<Rightarrow> string option \<Rightarrow> failure + product" where
  "decreaseStock p quantity variantSku =
     (let p' =
        (if hasVariants p \<and> truthy_string variantSku
           then p \<lparr> variants := update_first (\<lambda>v. Some (v_sku v) = variantSku)
                      (\<lambda>v. let s = v_stock v - int quantity
                           in v \<lparr> v_stock := s,
                                 v_isAvailable := (if s = 0 then False else v_isAvailable v) \<rparr>)
                      (variants p) \<rparr>
         else p \<lparr> p_stock := p_stock p - int quantity \<rparr>)
      in if stock_valid p' then Inr (product_save p') else Inl ValidationError)"

definition increaseStock :: "product \<Rightarrow> nat \<Rightarrow> string option \<Rightarrow> product" where
  "increaseStock p quantity variantSku =
     product_save
       (if hasVariants p \<and> truthy_string variantSku
          then p \<lparr> variants := update_first (\<lambda>v. Some (v_sku v) = variantSku)
                     (\<lambda>v. v \<lparr> v_stock := v_stock v + int quantity, v_isAvailable := True \<rparr>)
                     (variants p) \<rparr>
        else p \<lparr> p_stock := p_stock p + int quantity \<rparr>)"

type_synonym catalog = "oid \<rightharpoonup> product"

section \<open>models/order.js\<close>

datatype order_status =
  Pending | Confirmed | Processing | Shipped | Delivered | Cancelled | Returned

datatype return_status = Requested | Approved | Rejected | Completed

record order_item =
  i_product :: oid
  i_variantSku :: "string option"
  i_quantity :: nat
  i_price :: money
  i_totalPrice :: money

record order_coupon =
  oc_couponId :: oid
  oc_code :: string
  oc_discountType :: discount_type
  oc_discountAmount :: money
  oc_freeShipping :: bool
  oc_appliedAt :: time

record history_entry =
  he_status :: order_status
  he_updatedAt :: time
  he_note :: "string option"

text \<open>The fields of the order schema that the order methods and the coupon and order
  controllers read or write (addresses, payment and shipment references are left out).\<close>

record order =
  o_id :: oid
  orderId :: "string option"
  o_user :: oid
  items :: "order_item list"
  subtotal :: money
  shippingCharge :: money
  discount :: money
  totalAmount :: money
  orderStatus :: order_status
  deliveredAt :: "time option"
  isCancelled :: bool
  cancelledAt :: "time option"
  cancellationReason :: "string option"
  isReturned :: bool
  returnRequestedAt :: "time option"
  returnReason :: "string option"
  returnStatus :: "return_status option"
  statusHistory :: "history_entry list"
  o_coupon :: "order_coupon option"
  createdAt :: time

subsection \<open>Order identifier\<close>

text \<open>\<open>String(n)\<close> of a non-negative integer and \<open>padStart(n, '0')\<close>.\<close>

definition digit_char :: "nat \<Rightarrow> char" where
  "digit_char d = char_of (48 + d)"

fun string_of_nat :: "nat \<Rightarrow> string" where
  "string_of_nat n =
     (if n < 10 then [digit_char n]
      else string_of_nat (n div 10) @ [digit_char (n mod 10)])"

declare string_of_nat.simps [simp del]

definition padStart :: "nat \<Rightarrow> char \<Rightarrow> string \<Rightarrow> string" where
  "padStart targetLength c s = replicate (targetLength - length s) c @ s"

text \<open>What the hook reads from \<open>new Date()\<close>: \<open>getFullYear()\<close>, \<open>getMonth()\<close> (0 to 11),
  \<open>getDate()\<close>, and the timestamp of local midnight that \<open>setHours(0, 0, 0, 0)\<close> returns.\<close>

record js_date =
  getFullYear :: nat
  getMonth :: nat
  getDate :: nat
  startOfDay :: time

text \<open>\<open>countDocuments({ createdAt: { $gte: startOfDay } })\<close> over the stored orders.\<close>

definition countDocuments_since :: "order list \<Rightarrow> time \<Rightarrow> nat" where
  "countDocuments_since stored t = length (filter (\<lambda>x. createdAt x \<ge> t) stored)"

definition order_id_prefix :: "string option \<Rightarrow> string" where
  "order_id_prefix env_prefix = (if truthy_string env_prefix then the env_prefix else ''ORD'')"

definition generate_order_id :: "string option \<Rightarrow> js_date \<Rightarrow> nat \<Rightarrow> string" where
  "generate_order_id env_prefix date count =
     (let year = getFullYear date;
          month = padStart 2 (CHR ''0'') (string_of_nat (getMonth date + 1));
          day = padStart 2 (CHR ''0'') (string_of_nat (getDate date));
          sequence = padStart 4 (CHR ''0'') (string_of_nat (count + 1))
      in order_id_prefix env_prefix @ string_of_nat year @ month @ day @ sequence)"

text \<open>\<open>orderSchema.pre('validate')\<close>.\<close>

definition order_pre_validate ::
    "string option \<Rightarrow> js_date \<Rightarrow> order list \<Rightarrow> order \<Rightarrow> order" where
  "order_pre_validate env_prefix date stored ord =
     (if \<not> truthy_string (orderId ord)
        then ord \<lparr> orderId := Some (generate_order_id env_prefix date
                                  (countDocuments_since stored (startOfDay date))) \<rparr>
      else ord)"

text \<open>\<open>orderSchema.pre('save')\<close>: \<open>isModified('orderStatus')\<close> compares with the status
  the document was loaded with (\<open>None\<close> for a new document, whose status counts as
  modified).\<close>

definition order_pre_save :: "order_status option \<Rightarrow> time \<Rightarrow> order \<Rightarrow> order" where
  "order_pre_save loaded_status now ord =
     (if Some (orderStatus ord) \<noteq> loaded_status
        then ord \<lparr> statusHistory := statusHistory ord @
                 [\<lparr> he_status = orderStatus ord, he_updatedAt = now, he_note = None \<rparr>] \<rparr>
      else ord)"

subsection \<open>Order methods\<close>

text \<open>A call of \<open>product.increaseStock(quantity, variantSku)\<close> on the product found
  under an id, as the inventory receives it.\<close>

record stock_call =
  sc_product :: oid
  sc_quantity :: nat
  sc_variantSku :: "string option"

text \<open>The loop ``Restore stock'' of \<open>cancelOrder\<close>: an item whose product is no longer
  found is skipped.\<close>

fun restore_stock ::
    "catalog \<Rightarrow> stock_call list \<Rightarrow> order_item list \<Rightarrow> catalog \<times> stock_call list" where
  "restore_stock cat calls [] = (cat, calls)"
| "restore_stock cat calls (item # rest) =
     (case cat (i_product item) of
        None \<Rightarrow> restore_stock cat calls rest
      | Some product \<Rightarrow>
          restore_stock
            (cat (i_product item \<mapsto> increaseStock product (i_quantity item) (i_variantSku item)))
            (calls @ [\<lparr> sc_product = i_product item, sc_quantity = i_quantity item,
                        sc_variantSku = i_variantSku item \<rparr>])
            rest)"

record cancel_outcome =
  co_order :: order
  co_catalog :: catalog
  co_calls :: "stock_call list"

definition order_cancelOrder ::
    "catalog \<Rightarrow> order \<Rightarrow> string option \<Rightarrow> time \<Rightarrow> order_error + cancel_outcome" where
  "order_cancelOrder cat ord reason now =
     (if orderStatus ord = Delivered
        then Inl (InvalidTransition ''Cannot cancel delivered order'')
      else
        let ord1 = ord \<lparr> orderStatus := Cancelled, isCancelled := True,
                     cancelledAt := Some now, cancellationReason := reason \<rparr>;
            (cat', calls) = restore_stock cat [] (items ord1)
        in Inr \<lparr> co_order = order_pre_save (Some (orderStatus ord)) now ord1,
                 co_catalog = cat', co_calls = calls \<rparr>)"

definition order_requestReturn :: "order \<Rightarrow> string option \<Rightarrow> time \<Rightarrow> order_error + order" where
  "order_requestReturn ord reason now =
     (if orderStatus ord \<noteq> Delivered
        then Inl (InvalidTransition ''Can only return delivered orders'')
      else case deliveredAt ord of
        None \<Rightarrow> Inl OrderTypeError
      | Some delivered \<Rightarrow>
          let daysSinceDelivery = (now - delivered) div (1000 * 60 * 60 * 24)
          in if daysSinceDelivery > 7
               then Inl (ReturnWindowExpired ''Return period has expired'')
             else Inr (ord \<lparr> isReturned := True, returnRequestedAt := Some now,
                           returnReason := reason, returnStatus := Some Requested \<rparr>))"


section \<open>The store and the responses of the controllers\<close>

text \<open>The collections the controllers read and write. \<open>findById\<close> returns the stored
  document of that id; \<open>save\<close> of a loaded document replaces it.\<close>

record db =
  db_orders :: "order list"
  db_coupons :: "coupon list"
  db_products :: catalog

definition findOrderById :: "order list \<Rightarrow> oid \<Rightarrow> order option" where
  "findOrderById stored i = find (\<lambda>x. o_id x = i) stored"

definition put_order :: "order \<Rightarrow> order list \<Rightarrow> order list" where
  "put_order ord stored = map (\<lambda>x. if o_id x = o_id ord then ord else x) stored"


text \<open>\<open>toUpperCase\<close> on ASCII letters.\<close>

definition upper_char :: "char \<Rightarrow> char" where
  "upper_char ch =
     (let n = (of_char ch :: nat) in if 97 \<le> n \<and> n \<le> 122 then char_of (n - 32) else ch)"

definition toUpperCase :: "string \<Rightarrow> string" where
  "toUpperCase s = map upper_char s"

definition findValidCoupon :: "coupon list \<Rightarrow> string \<Rightarrow> time \<Rightarrow> coupon option" where
  "findValidCoupon stored code now =
     find (\<lambda>c. c_code c = toUpperCase code \<and> isActive c \<and> validUntil c > now \<and> validFrom c \<le> now)
       stored"

text \<open>The \<open>message\<close> of a JSON rejection: a fixed text, the \<open>reason\<close> of a validation
  object (absent on a valid one), or one of the interpolated texts of \<open>createOrder\<close>.\<close>

datatype message =
    Text string | Because reason | NoMessage
  | ProductNotAvailable oid | VariantNotAvailable string | OnlyUnitsAvailable int

text \<open>What a handler does with a request: \<open>res.status(200/201).json\<close> with the data,
  \<open>res.status(n).json({ success: false, message })\<close>, or \<open>next(error)\<close> on an exception.\<close>

datatype 'a response = Success 'a | Rejection nat message | Next failure

fun reason_of :: "validation \<Rightarrow> message" where
  "reason_of (Invalid r) = Because r"
| "reason_of Valid = NoMessage"

fun valid :: "validation \<Rightarrow> bool" where
  "valid Valid = True"
| "valid (Invalid r) = False"

text \<open>\<open>!x\<close> where \<open>x\<close> is an object: every object is truthy, so the negation is false.\<close>

definition not_object :: "validation \<Rightarrow> bool" where
  "not_object v = False"

section \<open>controllers/couponController.js\<close>

record validate_request =
  v_userId :: oid
  v_code :: "string option"
  v_cartTotal :: money
  v_cartItems :: "cart_item list"

record validate_data =
  vd_couponId :: oid
  vd_couponCode :: string
  vd_discountType :: discount_type
  vd_discountAmount :: money
  vd_freeShipping :: bool
  vd_originalTotal :: money
  vd_finalTotal :: money
  vd_savings :: money

definition validateCoupon :: "db \<Rightarrow> time \<Rightarrow> validate_request \<Rightarrow> validate_data response" where
  "validateCoupon d now req =
     (if \<not> truthy_string (v_code req)
        then Rejection 400 (Text ''Coupon code is required'')
      else if v_cartTotal req \<le> 0
        then Rejection 400 (Text ''Cart total must be greater than 0'')
      else case findValidCoupon (db_coupons d) (the (v_code req)) now of
        None \<Rightarrow> Rejection 404 (Text ''Invalid coupon code'')
      | Some coupon \<Rightarrow>
          let userValidation = canUserUse coupon (v_userId req) now in
          if not_object userValidation
            then Rejection 400 (reason_of userValidation)
          else (case calculateDiscount coupon (v_cartTotal req) (v_cartItems req) of
                  DiscountRejected r \<Rightarrow> Rejection 400 (Because r)
                | DiscountOk discountResult \<Rightarrow>
                    Success \<lparr> vd_couponId = c_id coupon,
                              vd_couponCode = c_code coupon,
                              vd_discountType = r_discountType discountResult,
                              vd_discountAmount = r_discountAmount discountResult,
                              vd_freeShipping = r_freeShipping discountResult,
                              vd_originalTotal = r_originalTotal discountResult,
                              vd_finalTotal = r_finalTotal discountResult,
                              vd_savings = r_discountAmount discountResult \<rparr>))"














section \<open>controllers/orderController.js\<close>

record create_item =
  ri_product :: oid
  ri_quantity :: nat
  ri_variantSku :: "string option"

record create_request =
  cq_userId :: oid
  cq_items :: "create_item list"

text \<open>The environment of one \<open>createOrder\<close> request: the clock, what \<open>new Date()\<close>
  gives the identifier hook, \<open>process.env.ORDER_ID_PREFIX\<close>, and the \<open>_id\<close> of the new
  document.\<close>

record create_env =
  ce_now :: time
  ce_date :: js_date
  ce_prefix :: "string option"
  ce_new_id :: oid

record totals =
  t_subtotal :: money
  t_shippingCharge :: money
  t_orderItems :: "order_item list"

text \<open>The loop ``Validate all products and calculate totals''; \<open>Inl\<close> is the message
  of the 400 response that leaves the loop.\<close>

fun collect_items :: "catalog \<Rightarrow> totals \<Rightarrow> create_item list \<Rightarrow> message + totals" where
  "collect_items cat acc [] = Inr acc"
| "collect_items cat acc (item # rest) =
     (case cat (ri_product item) of
        None \<Rightarrow> Inl (ProductNotAvailable (ri_product item))
      | Some product \<Rightarrow>
          if \<not> p_isActive product \<or> \<not> p_approved product
            then Inl (ProductNotAvailable (ri_product item))
          else
            let useVariant = (hasVariants product \<and> truthy_string (ri_variantSku item));
                variant = (if useVariant
                             then find (\<lambda>v. Some (v_sku v) = ri_variantSku item) (variants product)
                           else None)
            in if useVariant \<and> (case variant of None \<Rightarrow> True | Some v \<Rightarrow> \<not> v_isAvailable v)
                 then Inl (VariantNotAvailable (the (ri_variantSku item)))
               else
                 let availableStock = (case variant of Some v \<Rightarrow> v_stock v
                                                     | None \<Rightarrow> p_stock product);
                     price = (case variant of Some v \<Rightarrow> v_price v | None \<Rightarrow> p_price product)
                 in if availableStock < int (ri_quantity item)
                      then Inl (OnlyUnitsAvailable availableStock)
                    else collect_items cat
                      \<lparr> t_subtotal = t_subtotal acc + price * of_nat (ri_quantity item),
                        t_shippingCharge = (if \<not> p_freeShipping product
                                              then t_shippingCharge acc + p_shippingCharge product
                                            else t_shippingCharge acc),
                        t_orderItems = t_orderItems acc @
                          [\<lparr> i_product = ri_product item,
                             i_variantSku = ri_variantSku item,
                             i_quantity = ri_quantity item,
                             i_price = price,
                             i_totalPrice = price * of_nat (ri_quantity item) \<rparr>] \<rparr>
                      rest)"

text \<open>The loop ``Decrease stock for all products''. It stops with a TypeError when a
  product is not found (\<open>product.decreaseStock\<close> on \<open>null\<close>) and with the ValidationError of
  \<open>decreaseStock\<close>; the products decreased before stay decreased.\<close>

fun decrease_all :: "catalog \<Rightarrow> order_item list \<Rightarrow> catalog \<times> failure option" where
  "decrease_all cat [] = (cat, None)"
| "decrease_all cat (item # rest) =
     (case cat (i_product item) of
        None \<Rightarrow> (cat, Some TypeError)
      | Some product \<Rightarrow>
         (case decreaseStock product (i_quantity item) (i_variantSku item) of
            Inl err \<Rightarrow> (cat, Some err)
          | Inr product' \<Rightarrow> decrease_all (cat (i_product item \<mapsto> product')) rest))"

text \<open>The document \<open>Order.create\<close> stores: the fields the handler passes, the schema
  defaults, the identifier of the pre-validate hook and the first history entry of the
  pre-save hook.\<close>

definition new_order :: "db \<Rightarrow> create_env \<Rightarrow> oid \<Rightarrow> totals \<Rightarrow> order" where
  "new_order d env userId t =
     order_pre_save None (ce_now env)
       (order_pre_validate (ce_prefix env) (ce_date env) (db_orders d)
          \<lparr> o_id = ce_new_id env,
            orderId = None,
            o_user = userId,
            items = t_orderItems t,
            subtotal = t_subtotal t,
            shippingCharge = t_shippingCharge t,
            discount = 0,
            totalAmount = t_subtotal t + t_shippingCharge t,
            orderStatus = Pending,
            deliveredAt = None,
            isCancelled = False,
            cancelledAt = None,
            cancellationReason = None,
            isReturned = False,
            returnRequestedAt = None,
            returnReason = None,
            returnStatus = None,
            statusHistory = [],
            o_coupon = None,
            createdAt = ce_now env \<rparr>)"

text \<open>\<open>createOrder\<close>, up to the response (the user's cart, cleared at the end, is not
  part of the store modelled here).\<close>

definition createOrder :: "db \<Rightarrow> create_env \<Rightarrow> create_request \<Rightarrow> db \<times> order response" where
  "createOrder d env req =
     (if cq_items req = [] then (d, Rejection 400 (Text ''Cart is empty''))
      else case collect_items (db_products d)
                  \<lparr> t_subtotal = 0, t_shippingCharge = 0, t_orderItems = [] \<rparr> (cq_items req) of
        Inl msg \<Rightarrow> (d, Rejection 400 msg)
      | Inr t \<Rightarrow>
          let ord = new_order d env (cq_userId req) t;
              d1 = d \<lparr> db_orders := db_orders d @ [ord] \<rparr>;
              (cat', thrown) = decrease_all (db_products d1) (t_orderItems t);
              d2 = d1 \<lparr> db_products := cat' \<rparr>
          in case thrown of None \<Rightarrow> (d2, Success ord) | Some err \<Rightarrow> (d2, Next err))"

record cancel_request =
  cr_userId :: oid
  cr_orderId :: oid
  cr_reason :: "string option"

record cancel_result =
  cx_db :: db
  cx_calls :: "stock_call list"
  cx_response :: "order response"

text \<open>The handler \<open>cancelOrder\<close>; its own guard answers 400 with
  'Cannot cancel delivered order' or 'Cannot cancel cancelled order'.\<close>

definition cancelOrder :: "db \<Rightarrow> time \<Rightarrow> cancel_request \<Rightarrow> cancel_result" where
  "cancelOrder d now req =
     (case findOrderById (db_orders d) (cr_orderId req) of
        None \<Rightarrow> \<lparr> cx_db = d, cx_calls = [], cx_response = Rejection 404 (Text ''Order not found'') \<rparr>
      | Some ord \<Rightarrow>
          if o_user ord \<noteq> cr_userId req
            then \<lparr> cx_db = d, cx_calls = [], cx_response = Rejection 403 (Text ''Not authorized'') \<rparr>
          else if orderStatus ord = Delivered
            then \<lparr> cx_db = d, cx_calls = [],
                   cx_response = Rejection 400 (Text ''Cannot cancel delivered order'') \<rparr>
          else if orderStatus ord = Cancelled
            then \<lparr> cx_db = d, cx_calls = [],
                   cx_response = Rejection 400 (Text ''Cannot cancel cancelled order'') \<rparr>
          else (case order_cancelOrder (db_products d) ord (cr_reason req) now of
                  Inl err \<Rightarrow> \<lparr> cx_db = d, cx_calls = [], cx_response = Next (Thrown err) \<rparr>
                | Inr out \<Rightarrow>
                    \<lparr> cx_db = d \<lparr> db_orders := put_order (co_order out) (db_orders d),
                                  db_products := co_catalog out \<rparr>,
                      cx_calls = co_calls out,
                      cx_response = Success (co_order out) \<rparr>))"

section \<open>Sequences of coupon operations\<close>







section \<open>Notions of the specification\<close>


text \<open>Rounding half up to a multiple of a currency unit, as the specification asks of
  the discount.\<close>

definition round_half_up :: "money \<Rightarrow> money \<Rightarrow> money" where
  "round_half_up unit x = of_int \<lfloor>x / unit + 1 / 2\<rfloor> * unit"

text \<open>The call the specification expects for a line item on cancellation.\<close>

definition call_of :: "order_item \<Rightarrow> stock_call" where
  "call_of item = \<lparr> sc_product = i_product item, sc_quantity = i_quantity item,
                    sc_variantSku = i_variantSku item \<rparr>"

text \<open>The number a string of decimal digits denotes, to read the fields of an order
  identifier back.\<close>

definition nat_of_string :: "string \<Rightarrow> nat" where
  "nat_of_string s = foldl (\<lambda>a ch. 10 * a + (of_char ch - 48)) 0 s"

definition is_digit :: "char \<Rightarrow> bool" where
  "is_digit ch \<longleftrightarrow> 48 \<le> (of_char ch :: nat) \<and> (of_char ch :: nat) \<le> 57"

section \<open>Sample data\<close>

text \<open>The coupon SAVE20 of the specification's scenarios: 20 percent, at most 200, from
  an order value of 500.\<close>

definition save20 :: coupon where
  "save20 = \<lparr> c_id = 1, c_code = ''SAVE20'', discountType = Percentage, discountValue = 20,
              maxDiscountAmount = Some 200, minOrderValue = 500, maxUsageLimit = None,
              maxUsagePerUser = 1, validFrom = 0, validUntil = 1000000, isActive = True,
              applicableCategories = [], applicableProducts = [], applicableUsers = [],
              usageCount = 0, userUsage = [], freeShipping = False, excludedProducts = [] \<rparr>"

text \<open>FLAT50: a fixed discount of 50.\<close>

definition flat50 :: coupon where
  "flat50 = save20 \<lparr> c_id := 2, c_code := ''FLAT50'', discountType := Fixed,
                     discountValue := 50, maxDiscountAmount := None, minOrderValue := 0 \<rparr>"

text \<open>A 15 percent coupon with a cap of 1000 and no minimum.\<close>

definition pct15 :: coupon where
  "pct15 = save20 \<lparr> c_id := 3, c_code := ''PCT15'', discountValue := 15,
                    maxDiscountAmount := Some 1000, minOrderValue := 0 \<rparr>"

text \<open>SAVE20 restricted to category 7 only.\<close>

definition category_only :: coupon where
  "category_only = save20 \<lparr> applicableCategories := [7] \<rparr>"

text \<open>SAVE20 restricted to the users 5 and 6.\<close>

definition vip_only :: coupon where
  "vip_only = save20 \<lparr> applicableUsers := [5, 6] \<rparr>"


definition simple_product :: product where
  "simple_product = \<lparr> p_price = 500, p_stock = 10, hasVariants = False, variants = [],
                      p_isActive = True, p_approved = True, p_freeShipping = False,
                      p_shippingCharge = 50, isOutOfStock = False \<rparr>"

definition sample_catalog :: catalog where
  "sample_catalog = [1 \<mapsto> simple_product, 2 \<mapsto> simple_product \<lparr> p_price := 250 \<rparr>]"

definition item_3 :: order_item where
  "item_3 = \<lparr> i_product = 1, i_variantSku = None, i_quantity = 3, i_price = 500,
              i_totalPrice = 1500 \<rparr>"

definition item_1 :: order_item where
  "item_1 = \<lparr> i_product = 2, i_variantSku = Some ''RED-M'', i_quantity = 1, i_price = 250,
              i_totalPrice = 250 \<rparr>"

text \<open>A processing order of user 9 with two line items, of quantity 3 and 1.\<close>

definition sample_order :: order where
  "sample_order = \<lparr> o_id = 40, orderId = Some ''ORD202601150001'', o_user = 9,
                    items = [item_3, item_1], subtotal = 1750, shippingCharge = 100,
                    discount = 0, totalAmount = 1850, orderStatus = Processing,
                    deliveredAt = None, isCancelled = False, cancelledAt = None,
                    cancellationReason = None, isReturned = False, returnRequestedAt = None,
                    returnReason = None, returnStatus = None, statusHistory = [],
                    o_coupon = None, createdAt = 100 \<rparr>"

text \<open>The same order, delivered at time 0.\<close>

definition delivered_order :: order where
  "delivered_order = sample_order \<lparr> orderStatus := Delivered, deliveredAt := Some 0 \<rparr>"

definition sample_db :: db where
  "sample_db = \<lparr> db_orders = [sample_order], db_coupons = [save20, flat50],
                 db_products = sample_catalog \<rparr>"



text \<open>The result of SAVE20 on a cart of 1000.\<close>

definition save20_on_1000 :: discount_ok where
  "save20_on_1000 = \<lparr> r_discountAmount = 200, r_discountType = Percentage,
                      r_freeShipping = False, r_originalTotal = 1000, r_finalTotal = 800 \<rparr>"

text \<open>A line item whose product 3 is not in the sample catalogue, and the sample order with
  it as second line.\<close>

definition item_gone :: order_item where
  "item_gone = \<lparr> i_product = 3, i_variantSku = None, i_quantity = 1, i_price = 80,
                 i_totalPrice = 80 \<rparr>"

definition orphan_order :: order where
  "orphan_order = sample_order \<lparr> items := [item_3, item_gone] \<rparr>"

definition sample_cancel :: cancel_request where
  "sample_cancel = \<lparr> cr_userId = 9, cr_orderId = 40, cr_reason = Some ''changed my mind'' \<rparr>"

text \<open>5 January 2026, and an order about to be created on that day.\<close>

definition jan_5 :: js_date where
  "jan_5 = \<lparr> getFullYear = 2026, getMonth = 0, getDate = 5, startOfDay = 50 \<rparr>"

definition unnamed_order :: order where
  "unnamed_order = sample_order \<lparr> o_id := 41, orderId := None, createdAt := 120 \<rparr>"





definition sample_validate :: validate_request where
  "sample_validate = \<lparr> v_userId = 9, v_code = Some ''save20'', v_cartTotal = 1000, v_cartItems = [] \<rparr>"




text \<open>A store whose only coupon is restricted to the users 5 and 6, and one in which
  user 9 has used SAVE20 once, its per-user cap.\<close>

definition vip_db :: db where
  "vip_db = sample_db \<lparr> db_coupons := [vip_only] \<rparr>"

definition used_db :: db where
  "used_db = sample_db \<lparr> db_coupons :=
     [save20 \<lparr> usageCount := 1,
               userUsage := [\<lparr> uu_user = 9, usedCount = 1, lastUsedAt = Some 10,
                               usageHistory = [\<lparr> h_orderId = 40, h_discountAmount = 200,
                                                  h_usedAt = 10 \<rparr>] \<rparr>] \<rparr>] \<rparr>"

text \<open>A coupon of 100 percent with a cap of 1000, and the numbers the literals \<open>99.99\<close> and
  \<open>10.2 * 3\<close> denote.\<close>

definition pct100 :: coupon where
  "pct100 = pct15 \<lparr> c_id := 4, c_code := ''PCT100'', discountValue := 100 \<rparr>"

definition js_99_99 :: money where
  "js_99_99 = round64 (9999 / 100)"

definition js_10_2_times_3 :: money where
  "js_10_2_times_3 = round64 (round64 (102 / 10) * 3)"



section \<open>binary64 rounding on known values\<close>

text \<open>The numbers the literals \<open>0.1\<close> and \<open>99.99\<close> denote; a number that is representable
  is kept; \<open>2 ^ 53 + 1\<close> is a tie and goes to the even neighbour \<open>2 ^ 53\<close>, and \<open>2 ^ 53 + 3\<close> to
  \<open>2 ^ 53 + 4\<close>; \<open>0.1 + 0.2\<close> is not \<open>0.3\<close>.\<close>

lemma round64_samples:
  "round64 (1 / 10) = 3602879701896397 / 36028797018963968"
  "js_99_99 = 7036170730324623 / 70368744177664"
  "round64 200 = 200"
  "round64 (- (5 / 2)) = - (5 / 2)"
  "round64 9007199254740993 = 9007199254740992"
  "round64 9007199254740995 = 9007199254740996"
  "round64 (round64 (1 / 10) + round64 (2 / 10)) \<noteq> round64 (3 / 10)"
  by code_simp+

section \<open>Discount computation\<close>

lemma calculateDiscount_ok_amount:
  assumes "calculateDiscount c cartTotal cartItems = DiscountOk r"
  shows "r_discountAmount r = discount_amount c cartTotal"
  using assms by (auto simp: calculateDiscount_def Let_def split: if_splits)

text \<open>
  Claim C2, as the code has it. For an accepted cart, the discount of a percentage coupon
  is \<open>min (cartTotal * discountValue / 100) maxDiscountAmount\<close>, the product and the
  quotient each being the binary64 result of the operation, and it does not exceed
  \<open>maxDiscountAmount\<close>; the discount of a fixed coupon is \<open>min discountValue cartTotal\<close> and
  does not exceed \<open>cartTotal\<close>. The amount is not rounded to a currency unit.
\<close>

theorem calculateDiscount_formula:
  assumes ok: "calculateDiscount c cartTotal cartItems = DiscountOk r"
  shows "(case discountType c of
            Percentage \<Rightarrow>
              (case maxDiscountAmount c of
                 Some m \<Rightarrow>
                   r_discountAmount r =
                     min (round64 (round64 (cartTotal * discountValue c) / 100)) m
                   \<and> r_discountAmount r \<le> m
               | None \<Rightarrow>
                   r_discountAmount r = round64 (round64 (cartTotal * discountValue c) / 100))
          | Fixed \<Rightarrow>
              r_discountAmount r = min (discountValue c) cartTotal
              \<and> r_discountAmount r \<le> cartTotal)"
proof (cases "discountType c")
  case Percentage
  show ?thesis
  proof (cases "maxDiscountAmount c")
    case None
    with Percentage calculateDiscount_ok_amount [OF ok] show ?thesis
      by (simp add: discount_amount_def Let_def)
  next
    case (Some m)
    with Percentage calculateDiscount_ok_amount [OF ok] show ?thesis
      by (simp add: discount_amount_def Let_def min_def)
  qed
next
  case Fixed
  with calculateDiscount_ok_amount [OF ok] show ?thesis
    by (simp add: discount_amount_def Let_def min_def)
qed

lemma save20_scenario_A: "calculateDiscount save20 1000 [] = DiscountOk save20_on_1000"
  by code_simp

lemma flat50_scenario_C:
  "calculateDiscount flat50 30 [] =
     DiscountOk \<lparr> r_discountAmount = 30, r_discountType = Fixed, r_freeShipping = False,
                  r_originalTotal = 30, r_finalTotal = 0 \<rparr>"
  by code_simp

lemma sample_coupon_kinds:
  "discountType save20 = Percentage" "maxDiscountAmount save20 = Some 200"
  "discountValue save20 = 20" "discountType flat50 = Fixed" "discountValue flat50 = 50"
  by (simp_all add: save20_def flat50_def)

text \<open>Scenarios A and C of the specification: SAVE20 on a cart of 1000 gives 200, and
  FLAT50 on a cart of 30 gives 30.\<close>

theorem calculateDiscount_formula_witness:
  "calculateDiscount save20 1000 [] = DiscountOk save20_on_1000
   \<and> r_discountAmount save20_on_1000 = min (round64 (round64 (1000 * 20) / 100)) 200
   \<and> r_discountAmount save20_on_1000 = 200
   \<and> calculateDiscount flat50 30 [] =
       DiscountOk \<lparr> r_discountAmount = 30, r_discountType = Fixed, r_freeShipping = False,
                    r_originalTotal = 30, r_finalTotal = 0 \<rparr>
   \<and> (30 :: money) = min 50 30"
  using calculateDiscount_formula [OF save20_scenario_A]
        calculateDiscount_formula [OF flat50_scenario_C]
        save20_scenario_A flat50_scenario_C
  by (simp add: sample_coupon_kinds save20_on_1000_def)

text \<open>
  Claim C2 as stated fails twice. On the rounding: 15 percent of a cart of 99.99 is
  returned as a number just below 14.9985, where rounding half up gives 15, to the
  hundredth as to the unit. On the bound by the cart total: 100 percent of the cart total
  \<open>10.2 * 3\<close>, which is just below 30.6, is returned as the number just above 30.6.
\<close>

theorem discount_unrounded_and_above_total:
  "calculateDiscount pct15 js_99_99 [] =
     DiscountOk \<lparr> r_discountAmount = 2110851219097387 / 140737488355328,
                  r_discountType = Percentage, r_freeShipping = False,
                  r_originalTotal = 7036170730324623 / 70368744177664,
                  r_finalTotal = 2990372560387965 / 35184372088832 \<rparr>
   \<and> round_half_up (1 / 100) (min (9999 / 100 * 15 / 100) 1000) = 15
   \<and> round_half_up 1 (min (9999 / 100 * 15 / 100) 1000) = 15
   \<and> (2110851219097387 / 140737488355328 :: money) \<noteq> 15
   \<and> discountValue pct100 = 100
   \<and> js_10_2_times_3 = 8613134287346073 / 281474976710656
   \<and> calculateDiscount pct100 js_10_2_times_3 [] =
       DiscountOk \<lparr> r_discountAmount = 4306567143673037 / 140737488355328,
                    r_discountType = Percentage, r_freeShipping = False,
                    r_originalTotal = 8613134287346073 / 281474976710656,
                    r_finalTotal = - (1 / 281474976710656) \<rparr>
   \<and> (4306567143673037 / 140737488355328 :: money) > 8613134287346073 / 281474976710656"
  by code_simp

section \<open>Order totals\<close>





section \<open>Scope restrictions of a coupon\<close>

lemma calculateDiscount_ignores_categories:
  "calculateDiscount (c \<lparr> applicableCategories := cats \<rparr>) cartTotal cartItems =
   calculateDiscount c cartTotal cartItems"
  by (cases "discountType c") (simp_all add: calculateDiscount_def discount_amount_def Let_def)

text \<open>
  Claim C4 at its failing input. A coupon restricted to category 7 only, with no product
  lists, is accepted for a cart whose single line is product 1, whatever the category of
  that product: \<open>calculateDiscount\<close> reads \<open>applicableProducts\<close> and \<open>excludedProducts\<close> and
  never \<open>applicableCategories\<close>, and a cart line carries no category.
\<close>

theorem categories_not_checked:
  "applicableCategories category_only = [7]
   \<and> applicableProducts category_only = []
   \<and> calculateDiscount category_only 1000 [\<lparr> ci_product = 1, ci_quantity = 2 \<rparr>] =
       DiscountOk \<lparr> r_discountAmount = 200, r_discountType = Percentage, r_freeShipping = False,
                    r_originalTotal = 1000, r_finalTotal = 800 \<rparr>"
  by code_simp

section \<open>Return requests\<close>

lemma whole_days_over_7: "(x::int) div 86400000 > 7 \<longleftrightarrow> x \<ge> 691200000"
proof -
  define q where "q = x div 86400000"
  define r where "r = x mod 86400000"
  have "x = 86400000 * q + r"
    unfolding q_def r_def by simp
  moreover have "0 \<le> r" and "r < 86400000"
    unfolding r_def by simp_all
  ultimately have "7 < q \<longleftrightarrow> 691200000 \<le> x"
    by linarith
  then show ?thesis
    unfolding q_def .
qed

lemma requestReturn_delivered:
  assumes "orderStatus ord = Delivered" "deliveredAt ord = Some delivered"
  shows "order_requestReturn ord reason now =
     (if now - delivered \<ge> 691200000
        then Inl (ReturnWindowExpired ''Return period has expired'')
      else Inr (ord \<lparr> isReturned := True, returnRequestedAt := Some now,
                      returnReason := reason, returnStatus := Some Requested \<rparr>))"
proof -
  have "order_requestReturn ord reason now =
     (if (now - delivered) div 86400000 > 7
        then Inl (ReturnWindowExpired ''Return period has expired'')
      else Inr (ord \<lparr> isReturned := True, returnRequestedAt := Some now,
                      returnReason := reason, returnStatus := Some Requested \<rparr>))"
    unfolding order_requestReturn_def Let_def using assms by simp
  then show ?thesis
    unfolding whole_days_over_7 .
qed

lemma requestReturn_not_delivered:
  assumes "orderStatus ord \<noteq> Delivered"
  shows "order_requestReturn ord reason now =
           Inl (InvalidTransition ''Can only return delivered orders'')"
  unfolding order_requestReturn_def using assms by simp

lemma sample_order_status: "orderStatus sample_order = Processing"
  by (simp add: sample_order_def)

lemma delivered_order_fields:
  "orderStatus delivered_order = Delivered" "deliveredAt delivered_order = Some 0"
  by (simp_all add: delivered_order_def)

text \<open>
  Claim C7, as the code has it. A return request on an order that is not delivered fails
  with the invalid-transition error. On a delivered order with a delivery date it fails
  with the expired-window error exactly when the whole days since delivery exceed 7, that
  is when at least 8 times 24 hours have passed; otherwise it sets the returned flag, the
  request timestamp, the reason and the return status 'requested'.
\<close>

theorem requestReturn_window:
  "(orderStatus ord \<noteq> Delivered \<longrightarrow>
      order_requestReturn ord reason now = Inl (InvalidTransition ''Can only return delivered orders''))
   \<and> (orderStatus ord = Delivered \<longrightarrow> deliveredAt ord = Some delivered \<longrightarrow>
        (if now - delivered \<ge> 8 * (1000 * 60 * 60 * 24)
         then order_requestReturn ord reason now = Inl (ReturnWindowExpired ''Return period has expired'')
         else order_requestReturn ord reason now =
                Inr (ord \<lparr> isReturned := True, returnRequestedAt := Some now,
                           returnReason := reason, returnStatus := Some Requested \<rparr>)))"
proof (intro conjI impI)
  assume "orderStatus ord \<noteq> Delivered"
  then show "order_requestReturn ord reason now =
      Inl (InvalidTransition ''Can only return delivered orders'')"
    by (rule requestReturn_not_delivered)
next
  assume a: "orderStatus ord = Delivered" "deliveredAt ord = Some delivered"
  have eight: "8 * (1000 * 60 * 60 * 24) = (691200000 :: int)" by simp
  show "if now - delivered \<ge> 8 * (1000 * 60 * 60 * 24)
         then order_requestReturn ord reason now = Inl (ReturnWindowExpired ''Return period has expired'')
         else order_requestReturn ord reason now =
                Inr (ord \<lparr> isReturned := True, returnRequestedAt := Some now,
                           returnReason := reason, returnStatus := Some Requested \<rparr>)"
    unfolding eight requestReturn_delivered [OF a] by (cases "691200000 \<le> now - delivered") simp_all
qed

text \<open>A processing order is refused; an order delivered at time 0 is refused after 8 days
  (scenario E of the specification) and accepted after 3.\<close>

theorem requestReturn_window_witness:
  "orderStatus sample_order \<noteq> Delivered
   \<and> order_requestReturn sample_order (Some ''too big'') 5 =
       Inl (InvalidTransition ''Can only return delivered orders'')
   \<and> orderStatus delivered_order = Delivered \<and> deliveredAt delivered_order = Some 0
   \<and> order_requestReturn delivered_order (Some ''too big'') (8 * (1000 * 60 * 60 * 24)) =
       Inl (ReturnWindowExpired ''Return period has expired'')
   \<and> order_requestReturn delivered_order (Some ''too big'') (3 * (1000 * 60 * 60 * 24)) =
       Inr (delivered_order \<lparr> isReturned := True,
                              returnRequestedAt := Some (3 * (1000 * 60 * 60 * 24)),
                              returnReason := Some ''too big'', returnStatus := Some Requested \<rparr>)"
  using requestReturn_window [of sample_order "Some ''too big''" 5 0]
        requestReturn_window [of delivered_order "Some ''too big''" "8 * (1000 * 60 * 60 * 24)" 0]
        requestReturn_window [of delivered_order "Some ''too big''" "3 * (1000 * 60 * 60 * 24)" 0]
        sample_order_status delivered_order_fields
  by simp

text \<open>
  Claim C7 as stated fails between 7 and 8 days: one hour after the seventh day the time
  since delivery exceeds the 7-day period, and the request is accepted.
\<close>

theorem return_accepted_after_7_days:
  "orderStatus delivered_order = Delivered \<and> deliveredAt delivered_order = Some 0
   \<and> (7 * (1000 * 60 * 60 * 24) + 3600000) - 0 > (7 * (1000 * 60 * 60 * 24) :: int)
   \<and> order_requestReturn delivered_order (Some ''too big'') (7 * (1000 * 60 * 60 * 24) + 3600000) =
       Inr (delivered_order \<lparr> isReturned := True,
                              returnRequestedAt := Some (7 * (1000 * 60 * 60 * 24) + 3600000),
                              returnReason := Some ''too big'', returnStatus := Some Requested \<rparr>)"
  using delivered_order_fields
  by (simp add: requestReturn_delivered [OF delivered_order_fields])

section \<open>Cancellation\<close>

lemma restore_stock_result:
  "restore_stock cat calls its = (cat', calls') \<Longrightarrow>
     dom cat' = dom cat
     \<and> calls' = calls @ map call_of (filter (\<lambda>item. i_product item \<in> dom cat) its)"
proof (induction its arbitrary: cat calls)
  case Nil
  then show ?case by simp
next
  case (Cons item rest)
  show ?case
  proof (cases "cat (i_product item)")
    case None
    with Cons.prems have "restore_stock cat calls rest = (cat', calls')" by simp
    moreover have "i_product item \<notin> dom cat" using None by blast
    ultimately show ?thesis using Cons.IH by simp
  next
    case (Some product)
    let ?cat1 = "cat (i_product item \<mapsto> increaseStock product (i_quantity item) (i_variantSku item))"
    have same: "dom ?cat1 = dom cat" using Some by (auto simp: dom_def)
    from Cons.prems Some
    have "restore_stock ?cat1 (calls @ [call_of item]) rest = (cat', calls')"
      by (simp add: call_of_def)
    from Cons.IH [OF this]
    have "dom cat' = dom ?cat1"
      and "calls' = (calls @ [call_of item])
             @ map call_of (filter (\<lambda>item. i_product item \<in> dom ?cat1) rest)"
      by blast+
    then have "dom cat' = dom cat"
      and "calls' = calls @ call_of item
             # map call_of (filter (\<lambda>item. i_product item \<in> dom cat) rest)"
      unfolding same by simp_all
    moreover have "i_product item \<in> dom cat" using Some by blast
    ultimately show ?thesis by simp
  qed
qed

lemma cancelOrder_not_delivered:
  assumes "orderStatus ord \<noteq> Delivered"
  shows "\<exists>cat'. order_cancelOrder cat ord reason now =
     Inr \<lparr> co_order = order_pre_save (Some (orderStatus ord)) now
                        (ord \<lparr> orderStatus := Cancelled, isCancelled := True,
                               cancelledAt := Some now, cancellationReason := reason \<rparr>),
           co_catalog = cat',
           co_calls = map call_of (filter (\<lambda>item. i_product item \<in> dom cat) (items ord)) \<rparr>"
proof -
  obtain cat' calls' where r: "restore_stock cat [] (items ord) = (cat', calls')"
    by (cases "restore_stock cat [] (items ord)")
  from restore_stock_result [OF r]
  have "calls' = map call_of (filter (\<lambda>item. i_product item \<in> dom cat) (items ord))" by simp
  with assms r show ?thesis
    by (simp add: order_cancelOrder_def)
qed

lemma pre_save_keeps_cancellation:
  "orderStatus (order_pre_save s now ord) = orderStatus ord"
  "isCancelled (order_pre_save s now ord) = isCancelled ord"
  "cancelledAt (order_pre_save s now ord) = cancelledAt ord"
  "cancellationReason (order_pre_save s now ord) = cancellationReason ord"
  by (simp_all add: order_pre_save_def)

text \<open>
  Claim C6, as the code has it. The order method \<open>cancelOrder\<close> fails with the
  invalid-transition error exactly when the status is 'delivered', and then returns no
  changed order. Otherwise the status becomes 'cancelled', the cancellation flag, timestamp
  and reason are set, and \<open>increaseStock\<close> is called once, with the item's quantity and
  variant SKU, for every line item whose product is still found, in the order of the
  items; a line item whose product is no longer stored is skipped.
\<close>

theorem cancelOrder_effect:
  "(orderStatus ord = Delivered \<longrightarrow>
      order_cancelOrder cat ord reason now = Inl (InvalidTransition ''Cannot cancel delivered order''))
   \<and> (orderStatus ord \<noteq> Delivered \<longrightarrow>
        (\<exists>out. order_cancelOrder cat ord reason now = Inr out
           \<and> orderStatus (co_order out) = Cancelled
           \<and> isCancelled (co_order out)
           \<and> cancelledAt (co_order out) = Some now
           \<and> cancellationReason (co_order out) = reason
           \<and> co_calls out = map call_of (filter (\<lambda>item. i_product item \<in> dom cat) (items ord))))"
proof (intro conjI impI)
  assume "orderStatus ord = Delivered"
  then show "order_cancelOrder cat ord reason now =
      Inl (InvalidTransition ''Cannot cancel delivered order'')"
    by (simp add: order_cancelOrder_def)
next
  assume "orderStatus ord \<noteq> Delivered"
  from cancelOrder_not_delivered [OF this, of cat reason now]
  obtain cat' where "order_cancelOrder cat ord reason now =
     Inr \<lparr> co_order = order_pre_save (Some (orderStatus ord)) now
                        (ord \<lparr> orderStatus := Cancelled, isCancelled := True,
                               cancelledAt := Some now, cancellationReason := reason \<rparr>),
           co_catalog = cat',
           co_calls = map call_of (filter (\<lambda>item. i_product item \<in> dom cat) (items ord)) \<rparr>"
    by blast
  then show "\<exists>out. order_cancelOrder cat ord reason now = Inr out
           \<and> orderStatus (co_order out) = Cancelled
           \<and> isCancelled (co_order out)
           \<and> cancelledAt (co_order out) = Some now
           \<and> cancellationReason (co_order out) = reason
           \<and> co_calls out = map call_of (filter (\<lambda>item. i_product item \<in> dom cat) (items ord))"
    by (simp add: pre_save_keeps_cancellation)
qed

lemma sample_catalog_dom: "dom sample_catalog = {1, 2}"
  by (auto simp: sample_catalog_def)

lemma sample_order_items: "items sample_order = [item_3, item_1]"
  by (simp add: sample_order_def)

text \<open>Scenario F of the specification: a processing order with line items of quantity 3
  and 1, both products stored, gives exactly two calls; a delivered order is refused.\<close>

theorem cancelOrder_effect_witness:
  "orderStatus delivered_order = Delivered
   \<and> order_cancelOrder sample_catalog delivered_order (Some ''changed my mind'') 77 =
       Inl (InvalidTransition ''Cannot cancel delivered order'')
   \<and> orderStatus sample_order \<noteq> Delivered
   \<and> (\<exists>out. order_cancelOrder sample_catalog sample_order (Some ''changed my mind'') 77 = Inr out
         \<and> orderStatus (co_order out) = Cancelled
         \<and> isCancelled (co_order out)
         \<and> cancelledAt (co_order out) = Some 77
         \<and> cancellationReason (co_order out) = Some ''changed my mind''
         \<and> co_calls out = [\<lparr> sc_product = 1, sc_quantity = 3, sc_variantSku = None \<rparr>,
                            \<lparr> sc_product = 2, sc_quantity = 1, sc_variantSku = Some ''RED-M'' \<rparr>])"
  using cancelOrder_effect [of delivered_order sample_catalog "Some ''changed my mind''" 77]
        cancelOrder_effect [of sample_order sample_catalog "Some ''changed my mind''" 77]
        delivered_order_fields sample_order_status
  by (simp add: sample_catalog_dom sample_order_items call_of_def item_3_def item_1_def)

lemma orphan_order_fields:
  "orderStatus orphan_order = Processing" "items orphan_order = [item_3, item_gone]"
  by (simp_all add: orphan_order_def sample_order_def)

text \<open>
  Claim C6 as stated fails when a product is gone: the order has two line items, the
  product of the second is not stored, and the inventory receives one call, not two.
\<close>

theorem missing_product_not_restocked:
  "orderStatus orphan_order = Processing
   \<and> map call_of (items orphan_order) =
       [\<lparr> sc_product = 1, sc_quantity = 3, sc_variantSku = None \<rparr>,
        \<lparr> sc_product = 3, sc_quantity = 1, sc_variantSku = None \<rparr>]
   \<and> map_sum id co_calls (order_cancelOrder sample_catalog orphan_order None 77) =
       Inr [\<lparr> sc_product = 1, sc_quantity = 3, sc_variantSku = None \<rparr>]"
proof -
  have "orderStatus orphan_order \<noteq> Delivered"
    by (simp add: orphan_order_fields)
  from cancelOrder_not_delivered [OF this, of sample_catalog None 77]
  obtain cat' where "order_cancelOrder sample_catalog orphan_order None 77 =
     Inr \<lparr> co_order = order_pre_save (Some (orderStatus orphan_order)) 77
                        (orphan_order \<lparr> orderStatus := Cancelled, isCancelled := True,
                               cancelledAt := Some 77, cancellationReason := None \<rparr>),
           co_catalog = cat',
           co_calls = map call_of (filter (\<lambda>item. i_product item \<in> dom sample_catalog)
                                     (items orphan_order)) \<rparr>"
    by blast
  then show ?thesis
    by (simp add: orphan_order_fields sample_catalog_dom call_of_def item_3_def item_gone_def)
qed

section \<open>Order identifiers\<close>

lemma of_char_digit_char: "d < 10 \<Longrightarrow> (of_char (digit_char d) :: nat) = 48 + d"
  by (simp add: digit_char_def)

lemma is_digit_digit_char: "d < 10 \<Longrightarrow> is_digit (digit_char d)"
  by (simp add: is_digit_def of_char_digit_char)

lemma nat_of_string_snoc:
  "nat_of_string (s @ [ch]) = 10 * nat_of_string s + (of_char ch - 48)"
  by (simp add: nat_of_string_def)

lemma nat_of_string_of_nat: "nat_of_string (string_of_nat n) = n"
proof (induction n rule: string_of_nat.induct)
  case (1 n)
  show ?case
  proof (cases "n < 10")
    case True
    then show ?thesis
      by (simp add: string_of_nat.simps [of n] nat_of_string_def of_char_digit_char)
  next
    case False
    with 1 have "nat_of_string (string_of_nat (n div 10)) = n div 10" by simp
    with False show ?thesis
      by (simp add: string_of_nat.simps [of n] nat_of_string_snoc of_char_digit_char)
  qed
qed

lemma digits_string_of_nat: "list_all is_digit (string_of_nat n)"
proof (induction n rule: string_of_nat.induct)
  case (1 n)
  show ?case
  proof (cases "n < 10")
    case True
    then show ?thesis
      by (simp add: string_of_nat.simps [of n] is_digit_digit_char)
  next
    case False
    with 1 have "list_all is_digit (string_of_nat (n div 10))" by simp
    with False show ?thesis
      by (simp add: string_of_nat.simps [of n] is_digit_digit_char)
  qed
qed

lemma length_string_of_nat: "0 < k \<Longrightarrow> n < 10 ^ k \<Longrightarrow> length (string_of_nat n) \<le> k"
proof (induction n arbitrary: k rule: string_of_nat.induct)
  case (1 n)
  show ?case
  proof (cases "n < 10")
    case True
    with 1(2) show ?thesis
      by (simp add: string_of_nat.simps [of n] Suc_leI)
  next
    case False
    obtain j where k: "k = Suc j" using 1(2) by (cases k) auto
    have "0 < j"
    proof (rule ccontr)
      assume "\<not> 0 < j"
      with k 1(3) False show False by simp
    qed
    moreover have "n div 10 < 10 ^ j"
      using 1(3) k by (simp add: less_mult_imp_div_less mult.commute)
    ultimately have "length (string_of_nat (n div 10)) \<le> j"
      using 1(1) [OF False] by blast
    with False k show ?thesis
      by (simp add: string_of_nat.simps [of n])
  qed
qed

lemma string_of_nat_nonempty: "string_of_nat n \<noteq> []"
  by (simp add: string_of_nat.simps [of n])

lemma length_padStart: "length (padStart k ch s) = max k (length s)"
  by (simp add: padStart_def)

lemma zeros_denote_0: "foldl (\<lambda>a ch. 10 * a + (of_char ch - 48)) 0 (replicate k (CHR ''0'')) = (0::nat)"
  by (induction k) simp_all

lemma nat_of_string_padStart: "nat_of_string (padStart k (CHR ''0'') s) = nat_of_string s"
  by (simp add: padStart_def nat_of_string_def zeros_denote_0)

lemma digits_padStart: "list_all is_digit s \<Longrightarrow> list_all is_digit (padStart k (CHR ''0'') s)"
  by (auto simp: padStart_def is_digit_def list_all_iff)

lemma order_id_prefix_nonempty: "order_id_prefix pfx \<noteq> []"
  by (cases pfx) (simp_all add: order_id_prefix_def)

lemma generate_order_id_nonempty: "generate_order_id pfx date count \<noteq> []"
  by (simp add: generate_order_id_def Let_def order_id_prefix_nonempty)

lemma pre_validate_keeps_identifier:
  "truthy_string (orderId ord) \<Longrightarrow> order_pre_validate pfx date stored ord = ord"
  by (simp add: order_pre_validate_def)

text \<open>
  Claim C10. For an order created without an identifier (undefined or empty), the
  pre-validate hook sets it to the prefix (the environment's, or 'ORD') followed by four
  digit strings: the year, the month (from 1) and the day, each of the last two padded with
  zeros to 2 digits, and the sequence, 1 plus the number of stored orders created since
  local midnight, padded with zeros to 4 digits (longer from 10000 on). Once set, the
  identifier is kept by every later run of the hook.
\<close>

theorem order_identifier_generated:
  assumes "\<not> truthy_string (orderId ord)"
  shows "\<exists>year month day sequence.
      orderId (order_pre_validate pfx date stored ord) =
        Some (order_id_prefix pfx @ year @ month @ day @ sequence)
    \<and> order_id_prefix pfx = (case pfx of None \<Rightarrow> ''ORD'' | Some p \<Rightarrow> if p = [] then ''ORD'' else p)
    \<and> list_all is_digit (year @ month @ day @ sequence)
    \<and> year = string_of_nat (getFullYear date) \<and> nat_of_string year = getFullYear date
    \<and> nat_of_string month = getMonth date + 1 \<and> 2 \<le> length month
    \<and> (getMonth date < 12 \<longrightarrow> length month = 2)
    \<and> nat_of_string day = getDate date \<and> 2 \<le> length day
    \<and> (getDate date \<le> 31 \<longrightarrow> length day = 2)
    \<and> nat_of_string sequence = 1 + length (filter (\<lambda>x. startOfDay date \<le> createdAt x) stored)
    \<and> 4 \<le> length sequence
    \<and> (length (filter (\<lambda>x. startOfDay date \<le> createdAt x) stored) < 9999 \<longrightarrow> length sequence = 4)
    \<and> order_pre_validate pfx' date' stored' (order_pre_validate pfx date stored ord) =
        order_pre_validate pfx date stored ord"
proof -
  let ?count = "length (filter (\<lambda>x. startOfDay date \<le> createdAt x) stored)"
  let ?year = "string_of_nat (getFullYear date)"
  let ?month = "padStart 2 (CHR ''0'') (string_of_nat (getMonth date + 1))"
  let ?day = "padStart 2 (CHR ''0'') (string_of_nat (getDate date))"
  let ?sequence = "padStart 4 (CHR ''0'') (string_of_nat (?count + 1))"
  let ?new = "order_pre_validate pfx date stored ord"
  have ident: "orderId ?new = Some (order_id_prefix pfx @ ?year @ ?month @ ?day @ ?sequence)"
    using assms
    by (simp add: order_pre_validate_def generate_order_id_def countDocuments_since_def Let_def)
  have prefix: "order_id_prefix pfx = (case pfx of None \<Rightarrow> ''ORD'' | Some p \<Rightarrow> if p = [] then ''ORD'' else p)"
    by (cases pfx) (simp_all add: order_id_prefix_def)
  have digits: "list_all is_digit (?year @ ?month @ ?day @ ?sequence)"
    by (simp add: digits_string_of_nat digits_padStart)
  have month2: "length ?month = 2" if "getMonth date < 12"
  proof -
    have "length (string_of_nat (getMonth date + 1)) \<le> 2"
      using that by (intro length_string_of_nat) simp_all
    then show ?thesis by (simp add: length_padStart)
  qed
  have day2: "length ?day = 2" if "getDate date \<le> 31"
  proof -
    have "length (string_of_nat (getDate date)) \<le> 2"
      using that by (intro length_string_of_nat) simp_all
    then show ?thesis by (simp add: length_padStart)
  qed
  have seq4: "length ?sequence = 4" if "?count < 9999"
  proof -
    have "length (string_of_nat (?count + 1)) \<le> 4"
      using that by (intro length_string_of_nat) simp_all
    then show ?thesis by (simp add: length_padStart)
  qed
  have "truthy_string (orderId ?new)"
    using assms by (simp add: order_pre_validate_def generate_order_id_nonempty)
  then have kept: "order_pre_validate pfx' date' stored' ?new = ?new"
    by (rule pre_validate_keeps_identifier)
  show ?thesis
    apply (rule exI [of _ ?year], rule exI [of _ ?month], rule exI [of _ ?day],
        rule exI [of _ ?sequence])
    using ident prefix digits month2 day2 seq4 kept
    by (simp add: nat_of_string_of_nat nat_of_string_padStart length_padStart)
qed

lemma unnamed_order_no_identifier: "\<not> truthy_string (orderId unnamed_order)"
  by (simp add: unnamed_order_def)

lemma jan_5_identifier:
  "orderId (order_pre_validate None jan_5 [sample_order] unnamed_order) = Some ''ORD202601050002''"
  by code_simp

text \<open>On 5 January 2026, with one order already created that day, the new order gets
  ORD202601050002, and a later run of the hook keeps it.\<close>

theorem order_identifier_generated_witness:
  "\<not> truthy_string (orderId unnamed_order)
   \<and> orderId (order_pre_validate None jan_5 [sample_order] unnamed_order) = Some ''ORD202601050002''
   \<and> order_pre_validate (Some ''X'') jan_5 [] (order_pre_validate None jan_5 [sample_order] unnamed_order)
       = order_pre_validate None jan_5 [sample_order] unnamed_order"
  using order_identifier_generated [OF unnamed_order_no_identifier,
          of None jan_5 "[sample_order]" "Some ''X''" jan_5 "[]"]
        unnamed_order_no_identifier jan_5_identifier
  by blast

section \<open>Applying a coupon to an order\<close>











section \<open>Usage caps\<close>















section \<open>Validating a coupon code\<close>

lemma validateCoupon_any_user:
  "validateCoupon d now (req \<lparr> v_userId := u \<rparr>) = validateCoupon d now req"
  by (cases "findValidCoupon (db_coupons d) (the (v_code req)) now")
     (simp_all add: validateCoupon_def not_object_def Let_def)

lemma canUserUse_ineligible:
  assumes "(applicableUsers c \<noteq> [] \<and> userId \<notin> set (applicableUsers c))
           \<or> (\<exists>u. find (\<lambda>u. uu_user u = userId) (userUsage c) = Some u
                   \<and> maxUsagePerUser c \<le> usedCount u)"
  shows "\<not> valid (canUserUse c userId now)"
  using assms
  by (auto simp: canUserUse_def list_ex_iff split: validation.splits option.splits)

text \<open>
  Claim C8. In \<open>validateCoupon\<close> the result of \<open>canUserUse\<close> is only negated as an object,
  which is never true, so the answer does not depend on the user at all. In particular,
  for a request with a code and a positive cart total whose coupon is found and whose cart
  the discount calculation accepts, a user who is absent from a non-empty allow-list, or
  whose used-count has reached the per-user cap, is not valid for \<open>canUserUse\<close> and still
  gets the success response with the computed discount.
\<close>

theorem validateCoupon_ignores_eligibility:
  "validateCoupon d now (req \<lparr> v_userId := anyone \<rparr>) = validateCoupon d now req
   \<and> (truthy_string (v_code req) \<longrightarrow> 0 < v_cartTotal req \<longrightarrow>
        findValidCoupon (db_coupons d) (the (v_code req)) now = Some coupon \<longrightarrow>
        ((applicableUsers coupon \<noteq> [] \<and> v_userId req \<notin> set (applicableUsers coupon))
          \<or> (\<exists>u. find (\<lambda>u. uu_user u = v_userId req) (userUsage coupon) = Some u
                  \<and> maxUsagePerUser coupon \<le> usedCount u)) \<longrightarrow>
        calculateDiscount coupon (v_cartTotal req) (v_cartItems req) = DiscountOk res \<longrightarrow>
          \<not> valid (canUserUse coupon (v_userId req) now)
        \<and> validateCoupon d now req =
            Success \<lparr> vd_couponId = c_id coupon,
                      vd_couponCode = c_code coupon,
                      vd_discountType = r_discountType res,
                      vd_discountAmount = r_discountAmount res,
                      vd_freeShipping = r_freeShipping res,
                      vd_originalTotal = r_originalTotal res,
                      vd_finalTotal = r_finalTotal res,
                      vd_savings = r_discountAmount res \<rparr>)"
proof (intro conjI impI)
  show "validateCoupon d now (req \<lparr> v_userId := anyone \<rparr>) = validateCoupon d now req"
    by (rule validateCoupon_any_user)
next
  assume "(applicableUsers coupon \<noteq> [] \<and> v_userId req \<notin> set (applicableUsers coupon))
          \<or> (\<exists>u. find (\<lambda>u. uu_user u = v_userId req) (userUsage coupon) = Some u
                  \<and> maxUsagePerUser coupon \<le> usedCount u)"
  then show "\<not> valid (canUserUse coupon (v_userId req) now)"
    by (rule canUserUse_ineligible)
next
  assume "truthy_string (v_code req)" "0 < v_cartTotal req"
    "findValidCoupon (db_coupons d) (the (v_code req)) now = Some coupon"
    "calculateDiscount coupon (v_cartTotal req) (v_cartItems req) = DiscountOk res"
  then show "validateCoupon d now req =
            Success \<lparr> vd_couponId = c_id coupon,
                      vd_couponCode = c_code coupon,
                      vd_discountType = r_discountType res,
                      vd_discountAmount = r_discountAmount res,
                      vd_freeShipping = r_freeShipping res,
                      vd_originalTotal = r_originalTotal res,
                      vd_finalTotal = r_finalTotal res,
                      vd_savings = r_discountAmount res \<rparr>"
    by (simp add: validateCoupon_def not_object_def Let_def)
qed

lemma vip_request:
  "truthy_string (v_code sample_validate) \<and> 0 < v_cartTotal sample_validate
   \<and> findValidCoupon (db_coupons vip_db) (the (v_code sample_validate)) 10 = Some vip_only
   \<and> applicableUsers vip_only \<noteq> [] \<and> v_userId sample_validate \<notin> set (applicableUsers vip_only)
   \<and> calculateDiscount vip_only (v_cartTotal sample_validate) (v_cartItems sample_validate)
       = DiscountOk save20_on_1000
   \<and> canUserUse vip_only (v_userId sample_validate) 10 = Invalid UserNotEligible"
  by code_simp

lemma used_request:
  "findValidCoupon (db_coupons used_db) (the (v_code sample_validate)) 11 = Some (hd (db_coupons used_db))
   \<and> find (\<lambda>u. uu_user u = v_userId sample_validate) (userUsage (hd (db_coupons used_db)))
       = Some (hd (userUsage (hd (db_coupons used_db))))
   \<and> maxUsagePerUser (hd (db_coupons used_db)) \<le> usedCount (hd (userUsage (hd (db_coupons used_db))))
   \<and> calculateDiscount (hd (db_coupons used_db)) (v_cartTotal sample_validate) (v_cartItems sample_validate)
       = DiscountOk save20_on_1000
   \<and> canUserUse (hd (db_coupons used_db)) (v_userId sample_validate) 11 = Invalid (UserLimitReached 1)"
  by code_simp

text \<open>User 9 validates SAVE20 on a cart of 1000, once while the coupon is reserved to the
  users 5 and 6 and once after having used it up: both answers are the success with a
  discount of 200.\<close>

theorem validateCoupon_ignores_eligibility_witness:
  "truthy_string (v_code sample_validate) \<and> 0 < v_cartTotal sample_validate
   \<and> findValidCoupon (db_coupons vip_db) (the (v_code sample_validate)) 10 = Some vip_only
   \<and> applicableUsers vip_only \<noteq> [] \<and> v_userId sample_validate \<notin> set (applicableUsers vip_only)
   \<and> calculateDiscount vip_only (v_cartTotal sample_validate) (v_cartItems sample_validate)
       = DiscountOk save20_on_1000
   \<and> canUserUse vip_only (v_userId sample_validate) 10 = Invalid UserNotEligible
   \<and> validateCoupon vip_db 10 sample_validate =
       Success \<lparr> vd_couponId = 1, vd_couponCode = ''SAVE20'', vd_discountType = Percentage,
                 vd_discountAmount = 200, vd_freeShipping = False, vd_originalTotal = 1000,
                 vd_finalTotal = 800, vd_savings = 200 \<rparr>
   \<and> canUserUse (hd (db_coupons used_db)) (v_userId sample_validate) 11 = Invalid (UserLimitReached 1)
   \<and> validateCoupon used_db 11 sample_validate =
       Success \<lparr> vd_couponId = 1, vd_couponCode = ''SAVE20'', vd_discountType = Percentage,
                 vd_discountAmount = 200, vd_freeShipping = False, vd_originalTotal = 1000,
                 vd_finalTotal = 800, vd_savings = 200 \<rparr>"
  using validateCoupon_ignores_eligibility
          [where d = vip_db and now = 10 and req = sample_validate and anyone = 9
             and coupon = vip_only and res = save20_on_1000]
        validateCoupon_ignores_eligibility
          [where d = used_db and now = 11 and req = sample_validate and anyone = 9
             and coupon = "hd (db_coupons used_db)" and res = save20_on_1000]
        vip_request used_request
  by (simp add: save20_on_1000_def vip_only_def save20_def used_db_def)

section \<open>Applying and removing a coupon\<close>


lemma new_order_total:
  "totalAmount (new_order d env userId t) =
     subtotal (new_order d env userId t) + shippingCharge (new_order d env userId t)
   \<and> o_coupon (new_order d env userId t) = None
   \<and> orderStatus (new_order d env userId t) = Pending"
  by (simp add: new_order_def order_pre_save_def order_pre_validate_def)

lemma createOrder_total:
  assumes "createOrder d env req = (d', Success ord)"
  shows "totalAmount ord = subtotal ord + shippingCharge ord \<and> o_coupon ord = None
         \<and> orderStatus ord = Pending"
proof -
  from assms obtain t where "ord = new_order d env (cq_userId req) t"
    by (auto simp: createOrder_def Let_def split: if_splits sum.splits prod.splits option.splits)
  then show ?thesis by (simp add: new_order_total)
qed






section \<open>The cancellation handler\<close>

lemma cancelOrder_refuses:
  assumes "findOrderById (db_orders d) (cr_orderId req) = Some ord"
      and "o_user ord = cr_userId req"
      and "orderStatus ord = Delivered \<or> orderStatus ord = Cancelled"
  shows "cx_db (cancelOrder d now req) = d \<and> cx_calls (cancelOrder d now req) = []
         \<and> (\<exists>m. cx_response (cancelOrder d now req) = Rejection 400 m)"
  using assms by (auto simp: cancelOrder_def)

lemma cancelOrder_restocks:
  assumes "findOrderById (db_orders d) (cr_orderId req) = Some ord"
      and "o_user ord = cr_userId req"
      and "orderStatus ord \<noteq> Delivered" "orderStatus ord \<noteq> Cancelled"
  shows "cx_calls (cancelOrder d now req) =
           map call_of (filter (\<lambda>item. i_product item \<in> dom (db_products d)) (items ord))
         \<and> (\<exists>ord'. cx_response (cancelOrder d now req) = Success ord'
                \<and> orderStatus ord' = Cancelled)"
proof -
  from cancelOrder_not_delivered [OF assms(3), of "db_products d" "cr_reason req" now]
  obtain cat' where "order_cancelOrder (db_products d) ord (cr_reason req) now =
     Inr \<lparr> co_order = order_pre_save (Some (orderStatus ord)) now
                        (ord \<lparr> orderStatus := Cancelled, isCancelled := True,
                               cancelledAt := Some now, cancellationReason := cr_reason req \<rparr>),
           co_catalog = cat',
           co_calls = map call_of (filter (\<lambda>item. i_product item \<in> dom (db_products d))
                                     (items ord)) \<rparr>"
    by blast
  with assms show ?thesis
    by (simp add: cancelOrder_def pre_save_keeps_cancellation)
qed

lemma sample_cancel_handled:
  "cx_calls (cancelOrder sample_db 77 sample_cancel) =
     [\<lparr> sc_product = 1, sc_quantity = 3, sc_variantSku = None \<rparr>,
      \<lparr> sc_product = 2, sc_quantity = 1, sc_variantSku = Some ''RED-M'' \<rparr>]
   \<and> map orderStatus (db_orders (cx_db (cancelOrder sample_db 77 sample_cancel))) = [Cancelled]
   \<and> map_option p_stock (db_products (cx_db (cancelOrder sample_db 77 sample_cancel)) 1) = Some 13"
  by code_simp

end
